theory Spec2Isabelle
  imports Complex_Main
begin

section \<open>Python values\<close>

text \<open>
  A Python \<open>float\<close> is an IEEE double. The model keeps the three special values apart
  from the finite ones and takes a finite double to be the real number it stands for.
  The arithmetic operators (\<open>**2\<close>, \<open>-\<close>, \<open>/\<close>) round their exact result to the
  nearest double, ties to even, with gradual underflow, and leave the finite range where
  the rounded result would. The functions of the math module and the power
  \<open>x ** (1/3)\<close> are taken as their exact real values: what is modelled of them is where
  they raise and where they produce a value that is not a float at all.
\<close>

datatype pyfloat = Fin real | PInf | NInf | NaN

text \<open>A number a handler can hold: \<open>x ** (1/3)\<close> yields a \<open>complex\<close> for negative \<open>x\<close>.\<close>

datatype pynum = PFloat pyfloat | PComplex complex

text \<open>
  Text built by the handlers. \<open>Str v\<close> is the text \<open>str(v)\<close> of a number (the
  digits that Python's \<open>repr\<close> algorithm picks are not modelled), \<open>Cat\<close> joins the
  pieces of an f-string.
\<close>

datatype pystr = Lit string | Str pynum | Cat pystr pystr

text \<open>The exceptions that can leave a handler.\<close>

datatype exn =
    HTTPException nat string
  | JWTError string
  | ValueError string
  | OverflowError string
  | ZeroDivisionError string
  | TypeError string
  | RequestValidationError string
  | SQLAlchemyError

text \<open>
  What the framework answers when an exception leaves a handler or a dependency: an
  \<open>HTTPException\<close> becomes a response with its own status code, a request that fails
  validation is answered with 422, anything else is answered by the server-error
  middleware with status 500.
\<close>

fun status_code :: "exn \<Rightarrow> nat" where
  "status_code (HTTPException s d) = s"
| "status_code (JWTError m) = 500"
| "status_code (ValueError m) = 500"
| "status_code (OverflowError m) = 500"
| "status_code (ZeroDivisionError m) = 500"
| "status_code (TypeError m) = 500"
| "status_code (RequestValidationError m) = 422"
| "status_code SQLAlchemyError = 500"

definition client_error :: "nat \<Rightarrow> bool" where
  "client_error s = (400 \<le> s \<and> s < 500)"

definition server_error :: "nat \<Rightarrow> bool" where
  "server_error s = (500 \<le> s \<and> s < 600)"

section \<open>Float arithmetic and the math module\<close>

text \<open>
  The magnitude from which a real result rounds to infinity: half an ulp above the
  largest finite double.
\<close>

definition overflow_bound :: real where
  "overflow_bound = 2 ^ 1024 - 2 ^ 970"

text \<open>The nearest integer, a tie going to the even one.\<close>

definition round_half_even :: "real \<Rightarrow> int" where
  "round_half_even y =
     (let f = \<lfloor>y\<rfloor>; d = y - of_int f
      in if d < 1 / 2 then f
         else if 1 / 2 < d then f + 1
         else if even f then f else f + 1)"

text \<open>
  The spacing of the doubles around \<open>x\<close>: 52 fraction bits below the binary exponent
  of \<open>x\<close>, the exponent being held at \<open>-1022\<close> in the subnormal range.
\<close>

definition ulp :: "real \<Rightarrow> real" where
  "ulp x = 2 powr of_int (max \<lfloor>log 2 \<bar>x\<bar>\<rfloor> (- 1022) - 52)"

text \<open>Rounding to the nearest double, ties to even, the exponent unbounded above.\<close>

definition rnd :: "real \<Rightarrow> real" where
  "rnd x = sgn x * (of_int (round_half_even (\<bar>x\<bar> / ulp x)) * ulp x)"

text \<open>The result of an IEEE operation whose exact value is \<open>r\<close>.\<close>

definition fl :: "real \<Rightarrow> pyfloat" where
  "fl r = (if overflow_bound \<le> r then PInf
           else if r \<le> - overflow_bound then NInf
           else Fin (rnd r))"

fun math_sqrt :: "pyfloat \<Rightarrow> exn + pyfloat" where
  "math_sqrt (Fin r) =
     (if r < 0 then Inl (ValueError ''math domain error'') else Inr (Fin (sqrt r)))"
| "math_sqrt PInf = Inr PInf"
| "math_sqrt NInf = Inl (ValueError ''math domain error'')"
| "math_sqrt NaN = Inr NaN"

fun math_log10 :: "pyfloat \<Rightarrow> exn + pyfloat" where
  "math_log10 (Fin r) =
     (if r \<le> 0 then Inl (ValueError ''math domain error'') else Inr (Fin (log 10 r)))"
| "math_log10 PInf = Inr PInf"
| "math_log10 NInf = Inl (ValueError ''math domain error'')"
| "math_log10 NaN = Inr NaN"

fun math_sin :: "pyfloat \<Rightarrow> exn + pyfloat" where
  "math_sin (Fin r) = Inr (Fin (sin r))"
| "math_sin PInf = Inl (ValueError ''math domain error'')"
| "math_sin NInf = Inl (ValueError ''math domain error'')"
| "math_sin NaN = Inr NaN"

fun math_tan :: "pyfloat \<Rightarrow> exn + pyfloat" where
  "math_tan (Fin r) = Inr (Fin (tan r))"
| "math_tan PInf = Inl (ValueError ''math domain error'')"
| "math_tan NInf = Inl (ValueError ''math domain error'')"
| "math_tan NaN = Inr NaN"

text \<open>
  \<open>x ** (1/3)\<close>. An infinite base gives \<open>inf\<close> (the exponent is positive and not an odd
  integer), a negative finite base with this fractional exponent is handed to the
  complex power, which returns the principal value: modulus \<open>|x| ** (1/3)\<close>, argument
  \<open>pi * (1/3)\<close>.
\<close>

fun float_pow_third :: "pyfloat \<Rightarrow> pynum" where
  "float_pow_third (Fin r) =
     (if r < 0
      then PComplex (Complex (\<bar>r\<bar> powr (1 / 3) * cos (pi * (1 / 3)))
                             (\<bar>r\<bar> powr (1 / 3) * sin (pi * (1 / 3))))
      else PFloat (Fin (r powr (1 / 3))))"
| "float_pow_third PInf = PFloat PInf"
| "float_pow_third NInf = PFloat PInf"
| "float_pow_third NaN = PFloat NaN"

text \<open>
  \<open>x ** 2\<close>. Python's float power raises \<open>OverflowError\<close> where the C library's
  \<open>pow\<close> overflows on finite operands, and returns the rounded square otherwise; an
  underflowing square rounds to a subnormal or to zero without error; infinities and NaN
  pass through. The library's \<open>pow\<close> is taken to round correctly. A C library may
  return a neighbouring double on a small share of the inputs; nothing stated below
  depends on the last bit of a square.
\<close>

fun float_pow2 :: "pyfloat \<Rightarrow> exn + pyfloat" where
  "float_pow2 (Fin r) =
     (if overflow_bound \<le> r ^ 2 then Inl (OverflowError ''Numerical result out of range'')
      else Inr (Fin (rnd (r ^ 2))))"
| "float_pow2 PInf = Inr PInf"
| "float_pow2 NInf = Inr PInf"
| "float_pow2 NaN = Inr NaN"

text \<open>\<open>x - y\<close> on floats: never raises.\<close>

fun float_sub :: "pyfloat \<Rightarrow> pyfloat \<Rightarrow> pyfloat" where
  "float_sub NaN y = NaN"
| "float_sub x NaN = NaN"
| "float_sub PInf PInf = NaN"
| "float_sub NInf NInf = NaN"
| "float_sub PInf y = PInf"
| "float_sub NInf y = NInf"
| "float_sub (Fin a) PInf = NInf"
| "float_sub (Fin a) NInf = PInf"
| "float_sub (Fin a) (Fin b) = fl (a - b)"

text \<open>\<open>x / d\<close> for a float \<open>x\<close> and a finite divisor \<open>d\<close> (the handlers divide by \<open>2\<close>).\<close>

fun float_div :: "pyfloat \<Rightarrow> real \<Rightarrow> exn + pyfloat" where
  "float_div x d =
     (if d = 0 then Inl (ZeroDivisionError ''float division by zero'')
      else Inr (case x of
                  Fin r \<Rightarrow> fl (r / d)
                | PInf \<Rightarrow> (if 0 < d then PInf else NInf)
                | NInf \<Rightarrow> (if 0 < d then NInf else PInf)
                | NaN \<Rightarrow> NaN))"

text \<open>Unary minus on floats, used to state the symmetry of \<open>integrate\<close>.\<close>

fun float_neg :: "pyfloat \<Rightarrow> pyfloat" where
  "float_neg (Fin r) = Fin (- r)"
| "float_neg PInf = NInf"
| "float_neg NInf = PInf"
| "float_neg NaN = NaN"

section \<open>Configuration\<close>

definition SECRET_KEY :: string where
  "SECRET_KEY = ''your-secret-key''"

definition ALGORITHM :: string where
  "ALGORITHM = ''HS256''"

definition ACCESS_TOKEN_EXPIRE_MINUTES :: int where
  "ACCESS_TOKEN_EXPIRE_MINUTES = 30"

text \<open>Times are whole seconds since the epoch; a \<open>timedelta\<close> is a number of seconds.\<close>

definition timedelta_minutes :: "int \<Rightarrow> int" where
  "timedelta_minutes m = m * 60"

section \<open>The log table and the observability sink\<close>

record log_entry =
  entry_id :: nat
  operation :: pystr
  result :: pystr
  timestamp :: int

text \<open>
  The state a request can change: the rows of table \<open>logs\<close>, the key the store assigns
  next, whether the store accepts a commit, and the events emitted to the log sink.
\<close>

record world =
  logs :: "log_entry list"
  next_id :: nat
  db_up :: bool
  events :: "pystr list"

text \<open>
  \<open>db.add\<close> only registers the object; \<open>db.commit\<close> writes the row, with the key and
  the \<open>utcnow\<close> default supplied on insert, or raises when the store is unavailable.
\<close>

definition db_commit :: "int \<Rightarrow> pystr \<Rightarrow> pystr \<Rightarrow> world \<Rightarrow> (exn + unit) \<times> world" where
  "db_commit now op res w =
     (if db_up w
      then (Inr (),
            w\<lparr>logs := logs w @ [\<lparr>entry_id = next_id w, operation = op,
                                  result = res, timestamp = now\<rparr>],
              next_id := Suc (next_id w)\<rparr>)
      else (Inl SQLAlchemyError, w))"

definition logger_info :: "pystr \<Rightarrow> world \<Rightarrow> world" where
  "logger_info msg w = w\<lparr>events := events w @ [msg]\<rparr>"

definition log_operation :: "int \<Rightarrow> pystr \<Rightarrow> pystr \<Rightarrow> world \<Rightarrow> (exn + unit) \<times> world" where
  "log_operation now op res w =
     (case db_commit now op res w of
        (Inl e, w') \<Rightarrow> (Inl e, w')
      | (Inr u, w') \<Rightarrow> (Inr (), logger_info (Cat op (Cat (Lit '': '') res)) w'))"

section \<open>Credentials\<close>

text \<open>
  Strings are byte strings: a password or a claim is its UTF-8 encoding.

  The password hash is idealised as the password it was made from. Verification is the
  hashing library's: it refuses a password of more than 4096 bytes and one that contains
  a NUL byte (both errors are \<open>ValueError\<close>s), and otherwise compares what bcrypt
  reads of a password, its first 72 bytes.
\<close>

datatype pwhash = Bcrypt string

definition pwd_hash :: "string \<Rightarrow> pwhash" where
  "pwd_hash p = Bcrypt p"

fun pwd_verify :: "string \<Rightarrow> pwhash \<Rightarrow> exn + bool" where
  "pwd_verify p (Bcrypt q) =
     (if 4096 < length p then Inl (ValueError ''password exceeds maximum allowed size'')
      else if CHR 0x00 \<in> set p then Inl (ValueError ''password may not contain NULL bytes'')
      else Inr (take 72 p = take 72 q))"

record user_row =
  row_username :: string
  hashed_password :: pwhash

record user =
  username :: string

definition fake_users_db :: "string \<rightharpoonup> user_row" where
  "fake_users_db =
     [''testuser'' \<mapsto> \<lparr>row_username = ''testuser'', hashed_password = pwd_hash ''testpass''\<rparr>]"

definition verify_password :: "string \<Rightarrow> pwhash \<Rightarrow> exn + bool" where
  "verify_password plain_password hashed = pwd_verify plain_password hashed"

text \<open>
  \<open>if not user or not verify_password(...)\<close>: an unknown name is refused without
  looking at the password; for a known name an error of the verification leaves the
  function as an exception.
\<close>

definition authenticate_user :: "string \<Rightarrow> string \<Rightarrow> exn + user option" where
  "authenticate_user uname password =
     (case fake_users_db uname of
        None \<Rightarrow> Inr None
      | Some row \<Rightarrow>
          (case verify_password password (hashed_password row) of
             Inl e \<Rightarrow> Inl e
           | Inr ok \<Rightarrow> Inr (if ok then Some \<lparr>username = uname\<rparr> else None)))"

section \<open>Tokens\<close>

text \<open>The values a claim of a token can take: those of JSON as Python reads it.\<close>

datatype jval =
    JNull
  | JBool bool
  | JInt int
  | JFloat pyfloat
  | JStr string
  | JList "jval list"
  | JObj "(string \<times> jval) list"

type_synonym claims = "string \<rightharpoonup> jval"

text \<open>
  A signed token is idealised as the algorithm, the signing key and the claims it was
  made from; every other string a client may send is \<open>Opaque\<close>.
\<close>

datatype token = Opaque string | JWS string string claims

definition jwt_encode :: "claims \<Rightarrow> string \<Rightarrow> string \<Rightarrow> token" where
  "jwt_encode cl key alg = JWS alg key cl"

subsection \<open>Python's \<open>int()\<close>\<close>

definition is_space :: "char \<Rightarrow> bool" where
  "is_space c = (c \<in> set [CHR 0x09, CHR 0x0A, CHR 0x0B, CHR 0x0C, CHR 0x0D,
                            CHR 0x1C, CHR 0x1D, CHR 0x1E, CHR 0x1F, CHR 0x20])"

definition is_digit :: "char \<Rightarrow> bool" where
  "is_digit c = ((48::nat) \<le> of_char c \<and> of_char c \<le> (57::nat))"

text \<open>Digits, with single underscores allowed between them.\<close>

fun digit_groups :: "string \<Rightarrow> bool" where
  "digit_groups [] = False"
| "digit_groups [c] = is_digit c"
| "digit_groups (c # d # cs) =
     (is_digit c \<and> (if d = CHR ''_'' then digit_groups cs else digit_groups (d # cs)))"

definition digits_value :: "string \<Rightarrow> nat" where
  "digits_value ds = foldl (\<lambda>acc c. 10 * acc + (of_char c - 48)) 0 ds"

text \<open>
  \<open>int(s)\<close> for a string: surrounding white space is dropped, a sign may lead, at most
  4300 digits are read. Only ASCII digits and ASCII white space are recognised here.
\<close>

definition int_of_string :: "string \<Rightarrow> int option" where
  "int_of_string s =
     (let t = rev (dropWhile is_space (rev (dropWhile is_space s)));
          has_sign = (t \<noteq> [] \<and> (hd t = CHR ''-'' \<or> hd t = CHR ''+''));
          body = (if has_sign then tl t else t);
          ds = filter is_digit body
      in if digit_groups body \<and> length ds \<le> 4300
         then Some (if has_sign \<and> hd t = CHR ''-'' then - int (digits_value ds)
                    else int (digits_value ds))
         else None)"

fun py_int :: "jval \<Rightarrow> exn + int" where
  "py_int JNull = Inl (TypeError ''int() argument must be a string or a real number'')"
| "py_int (JBool b) = Inr (if b then 1 else 0)"
| "py_int (JInt n) = Inr n"
| "py_int (JFloat (Fin r)) = Inr (if 0 \<le> r then \<lfloor>r\<rfloor> else \<lceil>r\<rceil>)"
| "py_int (JFloat PInf) = Inl (OverflowError ''cannot convert float infinity to integer'')"
| "py_int (JFloat NInf) = Inl (OverflowError ''cannot convert float infinity to integer'')"
| "py_int (JFloat NaN) = Inl (ValueError ''cannot convert float NaN to integer'')"
| "py_int (JStr s) =
     (case int_of_string s of
        None \<Rightarrow> Inl (ValueError ''invalid literal for int() with base 10'')
      | Some n \<Rightarrow> Inr n)"
| "py_int (JList xs) = Inl (TypeError ''int() argument must be a string or a real number'')"
| "py_int (JObj kvs) = Inl (TypeError ''int() argument must be a string or a real number'')"

subsection \<open>The token library's decoder\<close>

text \<open>
  The claim checks of \<open>jwt.decode\<close> under its default options, with no audience, issuer,
  subject or access token given, as the service calls it. Each check yields the
  exception it raises, if any. A time claim is read with \<open>int()\<close>: a \<open>ValueError\<close> of
  the conversion becomes a claims error, any other exception of it leaves the decoder
  as it is.
\<close>

definition time_claim :: "jval \<Rightarrow> string \<Rightarrow> exn + int" where
  "time_claim v msg =
     (case py_int v of
        Inl e \<Rightarrow> (case e of ValueError m \<Rightarrow> Inl (JWTError msg) | _ \<Rightarrow> Inl e)
      | Inr n \<Rightarrow> Inr n)"

definition validate_iat :: "claims \<Rightarrow> exn option" where
  "validate_iat cl =
     (case cl ''iat'' of
        None \<Rightarrow> None
      | Some v \<Rightarrow>
          (case time_claim v ''Issued At claim (iat) must be an integer.'' of
             Inl e \<Rightarrow> Some e
           | Inr n \<Rightarrow> None))"

definition validate_nbf :: "claims \<Rightarrow> int \<Rightarrow> exn option" where
  "validate_nbf cl now =
     (case cl ''nbf'' of
        None \<Rightarrow> None
      | Some v \<Rightarrow>
          (case time_claim v ''Not Before claim (nbf) must be an integer.'' of
             Inl e \<Rightarrow> Some e
           | Inr n \<Rightarrow>
               (if now < n then Some (JWTError ''The token is not yet valid (nbf)'')
                else None)))"

definition validate_exp :: "claims \<Rightarrow> int \<Rightarrow> exn option" where
  "validate_exp cl now =
     (case cl ''exp'' of
        None \<Rightarrow> None
      | Some v \<Rightarrow>
          (case time_claim v ''Expiration Time claim (exp) must be an integer.'' of
             Inl e \<Rightarrow> Some e
           | Inr n \<Rightarrow>
               (if n < now then Some (JWTError ''Signature has expired.'') else None)))"

fun is_jstr :: "jval \<Rightarrow> bool" where
  "is_jstr (JStr s) = True"
| "is_jstr v = False"

text \<open>No audience is expected, so a token that names one never matches.\<close>

definition validate_aud :: "claims \<Rightarrow> exn option" where
  "validate_aud cl =
     (case cl ''aud'' of
        None \<Rightarrow> None
      | Some v \<Rightarrow>
          (case v of
             JStr s \<Rightarrow> Some (JWTError ''Invalid audience'')
           | JList xs \<Rightarrow>
               (if list_all is_jstr xs then Some (JWTError ''Invalid audience'')
                else Some (JWTError ''Invalid claim format in token''))
           | _ \<Rightarrow> Some (JWTError ''Invalid claim format in token'')))"

definition validate_sub :: "claims \<Rightarrow> exn option" where
  "validate_sub cl =
     (case cl ''sub'' of
        None \<Rightarrow> None
      | Some v \<Rightarrow> (if is_jstr v then None else Some (JWTError ''Subject must be a string.'')))"

definition validate_jti :: "claims \<Rightarrow> exn option" where
  "validate_jti cl =
     (case cl ''jti'' of
        None \<Rightarrow> None
      | Some v \<Rightarrow> (if is_jstr v then None else Some (JWTError ''JWT ID must be a string.'')))"

definition validate_at_hash :: "claims \<Rightarrow> exn option" where
  "validate_at_hash cl =
     (case cl ''at_hash'' of
        None \<Rightarrow> None
      | Some v \<Rightarrow>
          Some (JWTError ''No access_token provided to compare against at_hash claim.''))"

fun first_error :: "exn option list \<Rightarrow> exn option" where
  "first_error [] = None"
| "first_error (None # xs) = first_error xs"
| "first_error (Some e # xs) = Some e"

definition validate_claims :: "claims \<Rightarrow> int \<Rightarrow> exn option" where
  "validate_claims cl now =
     first_error [validate_iat cl, validate_nbf cl now, validate_exp cl now,
                  validate_aud cl, validate_sub cl, validate_jti cl, validate_at_hash cl]"

text \<open>
  Decoding checks the algorithm and the signature, then the claims, and returns the
  claims as they are.
\<close>

fun jwt_decode :: "token \<Rightarrow> string \<Rightarrow> string list \<Rightarrow> int \<Rightarrow> exn + claims" where
  "jwt_decode (Opaque s) key algs now = Inl (JWTError ''Not enough segments'')"
| "jwt_decode (JWS alg k cl) key algs now =
     (if alg \<notin> set algs then Inl (JWTError ''The specified alg value is not allowed'')
      else if k \<noteq> key then Inl (JWTError ''Signature verification failed.'')
      else (case validate_claims cl now of
              Some e \<Rightarrow> Inl e
            | None \<Rightarrow> Inr cl))"

subsection \<open>Issuing and checking tokens\<close>

text \<open>
  \<open>username in db\<close> for the value of the subject claim: a string is looked up, a list or
  an object cannot be hashed, any other value is no key of the table.
\<close>

definition get_user :: "(string \<rightharpoonup> user_row) \<Rightarrow> jval \<Rightarrow> exn + user option" where
  "get_user db uname =
     (case uname of
        JStr s \<Rightarrow> Inr (if s \<in> dom db then Some \<lparr>username = s\<rparr> else None)
      | JList xs \<Rightarrow> Inl (TypeError ''unhashable type: list'')
      | JObj kvs \<Rightarrow> Inl (TypeError ''unhashable type: dict'')
      | _ \<Rightarrow> Inr None)"

definition create_access_token :: "int \<Rightarrow> claims \<Rightarrow> int option \<Rightarrow> token" where
  "create_access_token now data expires_delta =
     (let expire = now + (case expires_delta of
                            None \<Rightarrow> timedelta_minutes 15
                          | Some d \<Rightarrow> (if d = 0 then timedelta_minutes 15 else d))
      in jwt_encode (data(''exp'' \<mapsto> JInt expire)) SECRET_KEY ALGORITHM)"

text \<open>The bearer scheme: a request without the header is refused before any decoding.\<close>

definition oauth2_scheme :: "token option \<Rightarrow> exn + token" where
  "oauth2_scheme auth =
     (case auth of None \<Rightarrow> Inl (HTTPException 401 ''Not authenticated'') | Some t \<Rightarrow> Inr t)"

definition credentials_exception :: exn where
  "credentials_exception = HTTPException 401 ''Could not validate credentials''"

text \<open>
  Only a \<open>JWTError\<close> of the decoder is turned into the credentials exception; a subject
  that is absent or null is refused with the same exception.
\<close>

definition get_current_user :: "int \<Rightarrow> token option \<Rightarrow> exn + user option" where
  "get_current_user now auth =
     (case oauth2_scheme auth of
        Inl e \<Rightarrow> Inl e
      | Inr tok \<Rightarrow>
          (case jwt_decode tok SECRET_KEY [ALGORITHM] now of
             Inl e \<Rightarrow> (case e of JWTError m \<Rightarrow> Inl credentials_exception | _ \<Rightarrow> Inl e)
           | Inr payload \<Rightarrow>
               (case payload ''sub'' of
                  None \<Rightarrow> Inl credentials_exception
                | Some uname \<Rightarrow>
                    (case uname of
                       JNull \<Rightarrow> Inl credentials_exception
                     | _ \<Rightarrow> get_user fake_users_db uname))))"

section \<open>Routes\<close>

record token_response =
  access_token :: token
  token_type :: string

definition login :: "int \<Rightarrow> string \<Rightarrow> string \<Rightarrow> exn + token_response" where
  "login now uname password =
     (case authenticate_user uname password of
        Inl e \<Rightarrow> Inl e
      | Inr None \<Rightarrow> Inl (HTTPException 400 ''Incorrect username or password'')
      | Inr (Some u) \<Rightarrow>
          Inr \<lparr>access_token = create_access_token now [''sub'' \<mapsto> JStr (username u)] None,
               token_type = ''bearer''\<rparr>)"

text \<open>
  The form of \<open>POST /token\<close>: both fields are required, and an empty field counts as
  missing. The optional fields of the form are taken as absent.
\<close>

definition OAuth2PasswordRequestForm :: "string \<Rightarrow> string \<Rightarrow> exn + string \<times> string" where
  "OAuth2PasswordRequestForm uname password =
     (if uname = [] \<or> password = [] then Inl (RequestValidationError ''Field required'')
      else Inr (uname, password))"

definition post_token :: "int \<Rightarrow> string \<Rightarrow> string \<Rightarrow> exn + token_response" where
  "post_token now uname password =
     (case OAuth2PasswordRequestForm uname password of
        Inl e \<Rightarrow> Inl e
      | Inr (u, p) \<Rightarrow> login now u p)"

text \<open>The body a calculation handler returns: a dictionary with one key.\<close>

type_synonym response = "(string \<times> pynum) list"

definition calc_sqrt :: "int \<Rightarrow> token option \<Rightarrow> pyfloat \<Rightarrow> world \<Rightarrow> (exn + response) \<times> world" where
  "calc_sqrt now auth x w =
     (case get_current_user now auth of
        Inl e \<Rightarrow> (Inl e, w)
      | Inr u \<Rightarrow>
          (case math_sqrt x of
             Inl e \<Rightarrow> (Inl e, w)
           | Inr res \<Rightarrow> (case log_operation now (Lit ''SQRT'') (Str (PFloat res)) w of
               (Inl e, w') \<Rightarrow> (Inl e, w')
             | (Inr n, w') \<Rightarrow> (Inr [(''sqrt'', PFloat res)], w'))))"

definition calc_cbrt :: "int \<Rightarrow> token option \<Rightarrow> pyfloat \<Rightarrow> world \<Rightarrow> (exn + response) \<times> world" where
  "calc_cbrt now auth x w =
     (case get_current_user now auth of
        Inl e \<Rightarrow> (Inl e, w)
      | Inr u \<Rightarrow> (case log_operation now (Lit ''CBRT'') (Str (float_pow_third x)) w of
               (Inl e, w') \<Rightarrow> (Inl e, w')
             | (Inr n, w') \<Rightarrow> (Inr [(''cbrt'', float_pow_third x)], w')))"

definition calc_log :: "int \<Rightarrow> token option \<Rightarrow> pyfloat \<Rightarrow> world \<Rightarrow> (exn + response) \<times> world" where
  "calc_log now auth x w =
     (case get_current_user now auth of
        Inl e \<Rightarrow> (Inl e, w)
      | Inr u \<Rightarrow>
          (case math_log10 x of
             Inl e \<Rightarrow> (Inl e, w)
           | Inr res \<Rightarrow> (case log_operation now (Lit ''LOG'') (Str (PFloat res)) w of
               (Inl e, w') \<Rightarrow> (Inl e, w')
             | (Inr n, w') \<Rightarrow> (Inr [(''log10'', PFloat res)], w'))))"

definition calc_sin :: "int \<Rightarrow> token option \<Rightarrow> pyfloat \<Rightarrow> world \<Rightarrow> (exn + response) \<times> world" where
  "calc_sin now auth x w =
     (case get_current_user now auth of
        Inl e \<Rightarrow> (Inl e, w)
      | Inr u \<Rightarrow>
          (case math_sin x of
             Inl e \<Rightarrow> (Inl e, w)
           | Inr res \<Rightarrow> (case log_operation now (Lit ''SIN'') (Str (PFloat res)) w of
               (Inl e, w') \<Rightarrow> (Inl e, w')
             | (Inr n, w') \<Rightarrow> (Inr [(''sin'', PFloat res)], w'))))"

definition calc_tan :: "int \<Rightarrow> token option \<Rightarrow> pyfloat \<Rightarrow> world \<Rightarrow> (exn + response) \<times> world" where
  "calc_tan now auth x w =
     (case get_current_user now auth of
        Inl e \<Rightarrow> (Inl e, w)
      | Inr u \<Rightarrow>
          (case math_tan x of
             Inl e \<Rightarrow> (Inl e, w)
           | Inr res \<Rightarrow> (case log_operation now (Lit ''TAN'') (Str (PFloat res)) w of
               (Inl e, w') \<Rightarrow> (Inl e, w')
             | (Inr n, w') \<Rightarrow> (Inr [(''tan'', PFloat res)], w'))))"

text \<open>\<open>(b**2 - a**2)/2\<close>, evaluated left to right.\<close>

definition integrate_value :: "pyfloat \<Rightarrow> pyfloat \<Rightarrow> exn + pyfloat" where
  "integrate_value a b =
     (case float_pow2 b of
        Inl e \<Rightarrow> Inl e
      | Inr b2 \<Rightarrow>
          (case float_pow2 a of
             Inl e \<Rightarrow> Inl e
           | Inr a2 \<Rightarrow> float_div (float_sub b2 a2) 2))"

definition calc_integrate ::
  "int \<Rightarrow> token option \<Rightarrow> pyfloat \<Rightarrow> pyfloat \<Rightarrow> world \<Rightarrow> (exn + response) \<times> world" where
  "calc_integrate now auth a b w =
     (case get_current_user now auth of
        Inl e \<Rightarrow> (Inl e, w)
      | Inr u \<Rightarrow>
          (case integrate_value a b of
             Inl e \<Rightarrow> (Inl e, w)
           | Inr res \<Rightarrow> (case log_operation now (Lit ''INTEGRATION'') (Str (PFloat res)) w of
               (Inl e, w') \<Rightarrow> (Inl e, w')
             | (Inr n, w') \<Rightarrow> (Inr [(''integration'', PFloat res)], w'))))"

text \<open>The routing table of the calculation endpoints.\<close>

datatype request =
    GET_sqrt pyfloat
  | GET_cbrt pyfloat
  | GET_log pyfloat
  | GET_sin pyfloat
  | GET_tan pyfloat
  | GET_integrate pyfloat pyfloat

fun app :: "int \<Rightarrow> token option \<Rightarrow> request \<Rightarrow> world \<Rightarrow> (exn + response) \<times> world" where
  "app now auth (GET_sqrt x) w = calc_sqrt now auth x w"
| "app now auth (GET_cbrt x) w = calc_cbrt now auth x w"
| "app now auth (GET_log x) w = calc_log now auth x w"
| "app now auth (GET_sin x) w = calc_sin now auth x w"
| "app now auth (GET_tan x) w = calc_tan now auth x w"
| "app now auth (GET_integrate a b) w = calc_integrate now auth a b w"

section \<open>Vocabulary of the statements\<close>

text \<open>
  The operation name a handler logs, the key it answers under, and the computation
  that is its first statement.
\<close>

fun operation_name :: "request \<Rightarrow> string" where
  "operation_name (GET_sqrt x) = ''SQRT''"
| "operation_name (GET_cbrt x) = ''CBRT''"
| "operation_name (GET_log x) = ''LOG''"
| "operation_name (GET_sin x) = ''SIN''"
| "operation_name (GET_tan x) = ''TAN''"
| "operation_name (GET_integrate a b) = ''INTEGRATION''"

fun response_key :: "request \<Rightarrow> string" where
  "response_key (GET_sqrt x) = ''sqrt''"
| "response_key (GET_cbrt x) = ''cbrt''"
| "response_key (GET_log x) = ''log10''"
| "response_key (GET_sin x) = ''sin''"
| "response_key (GET_tan x) = ''tan''"
| "response_key (GET_integrate a b) = ''integration''"

fun compute :: "request \<Rightarrow> exn + pynum" where
  "compute (GET_sqrt x) = map_sum id PFloat (math_sqrt x)"
| "compute (GET_cbrt x) = Inr (float_pow_third x)"
| "compute (GET_log x) = map_sum id PFloat (math_log10 x)"
| "compute (GET_sin x) = map_sum id PFloat (math_sin x)"
| "compute (GET_tan x) = map_sum id PFloat (math_tan x)"
| "compute (GET_integrate a b) = map_sum id PFloat (integrate_value a b)"

text \<open>The world after one audit record has been written and emitted.\<close>

definition logged :: "int \<Rightarrow> string \<Rightarrow> pynum \<Rightarrow> world \<Rightarrow> world" where
  "logged now op v w =
     w\<lparr>logs := logs w @ [\<lparr>entry_id = next_id w, operation = Lit op,
                           result = Str v, timestamp = now\<rparr>],
       next_id := Suc (next_id w),
       events := events w @ [Cat (Lit op) (Cat (Lit '': '') (Str v))]\<rparr>"

text \<open>A token as \<open>POST /token\<close> signs it, and two worlds to run requests in.\<close>

definition signed :: "claims \<Rightarrow> token" where
  "signed cl = JWS ''HS256'' ''your-secret-key'' cl"

definition fresh_world :: world where
  "fresh_world = \<lparr>logs = [], next_id = 1, db_up = True, events = []\<rparr>"

definition store_down :: world where
  "store_down = \<lparr>logs = [], next_id = 1, db_up = False, events = []\<rparr>"

section \<open>The audit logger\<close>

lemma log_operation_up:
  "db_up w \<Longrightarrow> log_operation now (Lit op) (Str v) w = (Inr (), logged now op v w)"
  by (simp add: log_operation_def db_commit_def logger_info_def logged_def)

lemma log_operation_down:
  "\<not> db_up w \<Longrightarrow> log_operation now op res w = (Inl SQLAlchemyError, w)"
  by (simp add: log_operation_def db_commit_def)

lemma app_auth_failed:
  "get_current_user now auth = Inl e \<Longrightarrow> app now auth req w = (Inl e, w)"
  by (cases req)
     (simp_all add: calc_sqrt_def calc_cbrt_def calc_log_def calc_sin_def calc_tan_def
        calc_integrate_def)

lemma app_compute_failed:
  "get_current_user now auth = Inr u \<Longrightarrow> compute req = Inl e \<Longrightarrow>
   app now auth req w = (Inl e, w)"
  by (cases req)
     (auto simp add: calc_sqrt_def calc_cbrt_def calc_log_def calc_sin_def calc_tan_def
        calc_integrate_def split: sum.splits)

lemma app_logged:
  "get_current_user now auth = Inr u \<Longrightarrow> compute req = Inr v \<Longrightarrow> db_up w \<Longrightarrow>
   app now auth req w = (Inr [(response_key req, v)], logged now (operation_name req) v w)"
  by (cases req)
     (auto simp add: calc_sqrt_def calc_cbrt_def calc_log_def calc_sin_def calc_tan_def
        calc_integrate_def log_operation_up split: sum.splits)

lemma app_store_down:
  "get_current_user now auth = Inr u \<Longrightarrow> compute req = Inr v \<Longrightarrow> \<not> db_up w \<Longrightarrow>
   app now auth req w = (Inl SQLAlchemyError, w)"
  by (cases req)
     (auto simp add: calc_sqrt_def calc_cbrt_def calc_log_def calc_sin_def calc_tan_def
        calc_integrate_def log_operation_down split: sum.splits)

lemmas decode_defs =
  validate_claims_def validate_iat_def validate_nbf_def validate_exp_def validate_aud_def
  validate_sub_def validate_jti_def validate_at_hash_def time_claim_def

lemma testuser_token:
  "now \<le> e \<Longrightarrow>
   get_current_user now (Some (signed [''sub'' \<mapsto> JStr ''testuser'', ''exp'' \<mapsto> JInt e]))
     = Inr (Some \<lparr>username = ''testuser''\<rparr>)"
  by (simp add: get_current_user_def oauth2_scheme_def signed_def SECRET_KEY_def
        ALGORITHM_def get_user_def fake_users_db_def decode_defs)

section \<open>Rounding\<close>

lemma round_half_even_cases:
  "round_half_even y = \<lfloor>y\<rfloor> \<and> y - of_int \<lfloor>y\<rfloor> \<le> 1 / 2
   \<or> round_half_even y = \<lfloor>y\<rfloor> + 1 \<and> 1 / 2 \<le> y - of_int \<lfloor>y\<rfloor>"
  by (auto simp add: round_half_even_def Let_def)

lemma round_half_even_error: "\<bar>of_int (round_half_even y) - y\<bar> \<le> 1 / 2"
proof -
  have "of_int \<lfloor>y\<rfloor> \<le> y" "y < of_int \<lfloor>y\<rfloor> + 1" by linarith+
  with round_half_even_cases [of y] show ?thesis by auto
qed

lemma round_half_even_of_int: "round_half_even (of_int n) = n"
  by (simp add: round_half_even_def)

lemma round_half_even_le:
  assumes "y \<le> of_int n"
  shows "round_half_even y \<le> n"
proof -
  have f: "\<lfloor>y\<rfloor> \<le> n" using assms by (simp add: floor_le_iff)
  from round_half_even_cases [of y] show ?thesis
  proof
    assume "round_half_even y = \<lfloor>y\<rfloor> \<and> y - of_int \<lfloor>y\<rfloor> \<le> 1 / 2"
    with f show ?thesis by simp
  next
    assume h: "round_half_even y = \<lfloor>y\<rfloor> + 1 \<and> 1 / 2 \<le> y - of_int \<lfloor>y\<rfloor>"
    then have "of_int \<lfloor>y\<rfloor> < (of_int n :: real)" using assms by linarith
    then have "\<lfloor>y\<rfloor> < n" by simp
    with h show ?thesis by simp
  qed
qed

lemma round_half_even_le_pred:
  assumes "y < of_int n - 1 / 2"
  shows "round_half_even y \<le> n - 1"
proof -
  have "of_int \<lfloor>y\<rfloor> \<le> y" by simp
  with assms have "of_int \<lfloor>y\<rfloor> < (of_int n :: real)" by linarith
  then have f: "\<lfloor>y\<rfloor> \<le> n - 1" by simp
  from round_half_even_cases [of y] show ?thesis
  proof
    assume "round_half_even y = \<lfloor>y\<rfloor> \<and> y - of_int \<lfloor>y\<rfloor> \<le> 1 / 2"
    with f show ?thesis by simp
  next
    assume h: "round_half_even y = \<lfloor>y\<rfloor> + 1 \<and> 1 / 2 \<le> y - of_int \<lfloor>y\<rfloor>"
    then have "of_int \<lfloor>y\<rfloor> + 1 < (of_int n :: real)" using assms by linarith
    then have "of_int (\<lfloor>y\<rfloor> + 1) < (of_int n :: real)" by simp
    then have "\<lfloor>y\<rfloor> + 1 < n" by (simp only: of_int_less_iff)
    with h show ?thesis by simp
  qed
qed

lemma round_half_even_nonneg: "0 \<le> y \<Longrightarrow> 0 \<le> round_half_even y"
  using round_half_even_cases [of y] by auto

lemma ulp_pos: "0 < ulp x"
  by (simp add: ulp_def)

lemma ulp_minus: "ulp (- x) = ulp x"
  by (simp add: ulp_def)

lemma rnd_zero: "rnd 0 = 0"
  by (simp add: rnd_def)

lemma rnd_minus: "rnd (- x) = - rnd x"
  by (simp add: rnd_def ulp_minus sgn_minus)

lemma rnd_nonneg:
  assumes "0 \<le> x"
  shows "0 \<le> rnd x"
proof -
  have "0 \<le> \<bar>x\<bar> / ulp x" using ulp_pos [of x] by simp
  then have "0 \<le> round_half_even (\<bar>x\<bar> / ulp x)" by (rule round_half_even_nonneg)
  then have "0 \<le> (of_int (round_half_even (\<bar>x\<bar> / ulp x)) :: real) * ulp x"
    using ulp_pos [of x] by simp
  moreover have "0 \<le> sgn x" using assms by (simp add: sgn_if)
  ultimately show ?thesis unfolding rnd_def by (rule mult_nonneg_nonneg [rotated])
qed

lemma rnd_error_ulp: "\<bar>rnd x - x\<bar> \<le> ulp x / 2"
proof -
  define y where "y = \<bar>x\<bar> / ulp x"
  have u: "0 < ulp x" by (rule ulp_pos)
  have a: "\<bar>x\<bar> = y * ulp x" using u by (simp add: y_def)
  have x: "x = sgn x * (y * ulp x)" unfolding a [symmetric] by (simp add: sgn_mult_abs)
  have "rnd x - x = sgn x * ((of_int (round_half_even y) - y) * ulp x)"
    unfolding rnd_def y_def [symmetric] using x by (simp add: algebra_simps)
  then have "\<bar>rnd x - x\<bar> = \<bar>sgn x\<bar> * (\<bar>of_int (round_half_even y) - y\<bar> * ulp x)"
    using u by (simp add: abs_mult)
  also have "\<dots> \<le> 1 * ((1 / 2) * ulp x)"
    using u round_half_even_error [of y]
    by (intro mult_mono mult_nonneg_nonneg) (simp_all add: abs_sgn_eq)
  finally show ?thesis by simp
qed

lemma floor_log2_bounds:
  assumes "x \<noteq> 0"
  shows "2 powr of_int \<lfloor>log 2 \<bar>x\<bar>\<rfloor> \<le> \<bar>x\<bar>"
    and "\<bar>x\<bar> < 2 powr of_int (\<lfloor>log 2 \<bar>x\<bar>\<rfloor> + 1)"
proof -
  have p: "0 < \<bar>x\<bar>" using assms by simp
  have "2 powr of_int \<lfloor>log 2 \<bar>x\<bar>\<rfloor> \<le> \<bar>x\<bar> \<and> \<bar>x\<bar> < 2 powr of_int (\<lfloor>log 2 \<bar>x\<bar>\<rfloor> + 1)"
    using floor_log_eq_powr_iff [OF p, of 2 "\<lfloor>log 2 \<bar>x\<bar>\<rfloor>"] by simp
  then show "2 powr of_int \<lfloor>log 2 \<bar>x\<bar>\<rfloor> \<le> \<bar>x\<bar>"
    and "\<bar>x\<bar> < 2 powr of_int (\<lfloor>log 2 \<bar>x\<bar>\<rfloor> + 1)" by simp_all
qed

lemma two_powr_diff: "(2::real) powr of_int (k - j) = 2 powr of_int k / 2 powr of_int j"
  by (simp add: powr_diff)

lemma two_powr_neg_nat: "(2::real) powr (- real n) = 1 / 2 ^ n"
  by (simp add: powr_minus powr_realpow divide_inverse)

text \<open>The error of one rounding: half a unit in the last place.\<close>

lemma ulp_half_bound:
  assumes "x \<noteq> 0"
  shows "ulp x / 2 \<le> \<bar>x\<bar> / 2 ^ 53 + 1 / 2 ^ 1075"
proof -
  define k where "k = \<lfloor>log 2 \<bar>x\<bar>\<rfloor>"
  have u: "ulp x = 2 powr of_int (max k (- 1022) - 52)" by (simp add: ulp_def k_def)
  have lo: "2 powr of_int k \<le> \<bar>x\<bar>" using floor_log2_bounds(1) [OF assms] by (simp add: k_def)
  show ?thesis
  proof (cases "- 1022 \<le> k")
    case True
    then have "max k (- 1022) = k" by simp
    then have "ulp x = 2 powr of_int (k - 52)" using u by simp
    also have "\<dots> = 2 powr of_int k / 2 ^ 52"
      by (simp only: two_powr_diff) simp
    finally have "ulp x / 2 = 2 powr of_int k / 2 ^ 53" by simp
    also have "\<dots> \<le> \<bar>x\<bar> / 2 ^ 53"
      using lo by (simp add: divide_right_mono)
    finally show ?thesis by simp
  next
    case False
    then have "max k (- 1022) = - 1022" by simp
    then have "ulp x = 2 powr of_int (- 1022 - 52)" using u by simp
    also have "of_int (- 1022 - 52) = - real 1074" by simp
    also have "2 powr (- real 1074) = 1 / 2 ^ 1074" by (rule two_powr_neg_nat)
    finally have "ulp x / 2 = 1 / 2 ^ 1075" by simp
    moreover have "0 \<le> \<bar>x\<bar> / 2 ^ 53" by simp
    ultimately show ?thesis by linarith
  qed
qed

lemma rnd_error: "\<bar>rnd x - x\<bar> \<le> \<bar>x\<bar> / 2 ^ 53 + 1 / 2 ^ 1075"
proof (cases "x = 0")
  case True
  then show ?thesis by (simp add: rnd_zero)
next
  case False
  from rnd_error_ulp [of x] ulp_half_bound [OF False] show ?thesis by linarith
qed

lemma abs_rnd:
  "\<bar>rnd x\<bar> = \<bar>sgn x\<bar> * (of_int (round_half_even (\<bar>x\<bar> / ulp x)) * ulp x)"
proof -
  have "0 \<le> \<bar>x\<bar> / ulp x" using ulp_pos [of x] by simp
  then have "0 \<le> round_half_even (\<bar>x\<bar> / ulp x)" by (rule round_half_even_nonneg)
  then have "0 \<le> (of_int (round_half_even (\<bar>x\<bar> / ulp x)) :: real)" by simp
  then show ?thesis
    using ulp_pos [of x] by (simp add: rnd_def abs_mult abs_of_nonneg abs_of_pos)
qed

text \<open>A value below the overflow bound rounds to a finite double.\<close>

lemma rnd_in_range:
  assumes "\<bar>x\<bar> < overflow_bound"
  shows "\<bar>rnd x\<bar> < overflow_bound"
proof (cases "x = 0")
  case True
  then show ?thesis using assms by (simp add: rnd_zero)
next
  case False
  define k where "k = \<lfloor>log 2 \<bar>x\<bar>\<rfloor>"
  define e where "e = max k (- 1022)"
  define y where "y = \<bar>x\<bar> / ulp x"
  have u: "ulp x = 2 powr of_int (e - 52)" by (simp add: ulp_def e_def k_def)
  have up: "0 < ulp x" by (rule ulp_pos)
  have r: "\<bar>rnd x\<bar> = of_int (round_half_even y) * ulp x"
    using False by (simp add: abs_rnd y_def abs_sgn_eq)
  have lo: "2 powr of_int k \<le> \<bar>x\<bar>" and hi: "\<bar>x\<bar> < 2 powr of_int (k + 1)"
    using floor_log2_bounds [OF False] by (simp_all add: k_def)
  have "overflow_bound < 2 powr 1024" by (simp add: overflow_bound_def)
  with lo assms have "2 powr of_int k < (2::real) powr 1024" by linarith
  then have "of_int k < (1024 :: real)" by (rule powr_less_cancel) simp
  then have k: "k \<le> 1023" by linarith
  have hi': "\<bar>x\<bar> < 2 powr of_int (e + 1)"
  proof -
    have "2 powr of_int (k + 1) \<le> (2::real) powr of_int (e + 1)"
      by (intro powr_mono) (simp_all add: e_def)
    with hi show ?thesis by linarith
  qed
  show ?thesis
  proof (cases "e \<le> 1022")
    case True
    have "y < 2 powr of_int (e + 1) / 2 powr of_int (e - 52)"
      unfolding y_def u using hi' by (simp add: divide_strict_right_mono)
    also have "\<dots> = 2 powr of_int ((e + 1) - (e - 52))" by (simp only: two_powr_diff)
    also have "\<dots> = 2 ^ 53" by simp
    finally have "y \<le> of_int (2 ^ 53)" by simp
    then have "round_half_even y \<le> 2 ^ 53" by (rule round_half_even_le)
    then have "(of_int (round_half_even y) :: real) \<le> of_int (2 ^ 53)"
      by (simp only: of_int_le_iff)
    then have "(of_int (round_half_even y) :: real) \<le> 2 ^ 53" by simp
    then have "\<bar>rnd x\<bar> \<le> 2 ^ 53 * ulp x"
      unfolding r using up by (simp add: mult_right_mono)
    also have "2 ^ 53 * ulp x = 2 powr of_int (53 + (e - 52))"
      unfolding u by (subst of_int_add, subst powr_add) simp
    also have "\<dots> \<le> 2 powr 1023" using True by (intro powr_mono) simp_all
    also have "\<dots> < overflow_bound" by (simp add: overflow_bound_def)
    finally show ?thesis .
  next
    case False
    with k have e: "e = 1023" by (simp add: e_def)
    have ux: "ulp x = 2 ^ 971" unfolding u e by simp
    have "y < overflow_bound / 2 ^ 971"
      unfolding y_def ux using assms by (simp add: divide_strict_right_mono)
    also have "\<dots> = of_int (2 ^ 53) - 1 / 2" by (simp add: overflow_bound_def)
    finally have "round_half_even y \<le> 2 ^ 53 - 1" by (rule round_half_even_le_pred)
    then have "(of_int (round_half_even y) :: real) \<le> of_int (2 ^ 53 - 1)"
      by (simp only: of_int_le_iff)
    then have "(of_int (round_half_even y) :: real) \<le> 2 ^ 53 - 1" by simp
    then have "\<bar>rnd x\<bar> \<le> (2 ^ 53 - 1) * 2 ^ 971"
      unfolding r ux by (simp add: mult_right_mono)
    also have "\<dots> < overflow_bound" by (simp add: overflow_bound_def)
    finally show ?thesis .
  qed
qed

text \<open>An integer of fewer than 54 bits is a double.\<close>

lemma rnd_of_int:
  assumes "\<bar>m\<bar> < 2 ^ 53"
  shows "rnd (of_int m) = of_int m"
proof (cases "m = 0")
  case True
  then show ?thesis by (simp add: rnd_zero)
next
  case False
  define x :: real where "x = of_int m"
  define k where "k = \<lfloor>log 2 \<bar>x\<bar>\<rfloor>"
  have x0: "x \<noteq> 0" using False by (simp add: x_def)
  have ax: "\<bar>x\<bar> = of_int \<bar>m\<bar>" by (simp add: x_def)
  have "1 \<le> \<bar>m\<bar>" using False by simp
  then have "(1::real) \<le> of_int \<bar>m\<bar>" by (simp only: of_int_1_le_iff)
  then have "1 \<le> \<bar>x\<bar>" by (simp only: ax)
  then have "0 \<le> log 2 \<bar>x\<bar>" by simp
  then have k0: "0 \<le> k" by (simp add: k_def)
  have "(of_int \<bar>m\<bar> :: real) < of_int (2 ^ 53)" using assms by (simp only: of_int_less_iff)
  then have "\<bar>x\<bar> < 2 ^ 53" unfolding ax by simp
  then have "2 powr of_int k < (2::real) powr 53"
    using floor_log2_bounds(1) [OF x0] by (simp add: k_def)
  then have "of_int k < (53 :: real)" by (rule powr_less_cancel) simp
  then have k1: "k \<le> 52" by linarith
  define d where "d = nat (52 - k)"
  have u: "ulp x = 1 / 2 ^ d"
  proof -
    have "ulp x = 2 powr of_int (k - 52)" using k0 by (simp add: ulp_def k_def max_def)
    also have "of_int (k - 52) = - real d" using k1 by (simp add: d_def)
    also have "2 powr (- real d) = 1 / 2 ^ d" by (rule two_powr_neg_nat)
    finally show ?thesis .
  qed
  have "\<bar>x\<bar> / ulp x = of_int (\<bar>m\<bar> * 2 ^ d)" unfolding u ax by simp
  then have "round_half_even (\<bar>x\<bar> / ulp x) = \<bar>m\<bar> * 2 ^ d"
    by (simp only: round_half_even_of_int)
  then have "rnd x = sgn x * (of_int (\<bar>m\<bar> * 2 ^ d) * (1 / 2 ^ d))"
    by (simp only: rnd_def u)
  also have "\<dots> = sgn x * \<bar>x\<bar>" unfolding ax by simp
  also have "\<dots> = x" by (simp add: sgn_mult_abs)
  finally show ?thesis by (simp add: x_def)
qed

lemma rnd_small_numerals:
  "rnd 1 = 1" "rnd 4 = 4" "rnd 8 = 8" "rnd 9 = 9"
  using rnd_of_int [of 1] rnd_of_int [of 4] rnd_of_int [of 8] rnd_of_int [of 9]
  by simp_all

section \<open>Range and error of the integrate computation\<close>

lemma overflow_bound_pos: "0 < overflow_bound"
proof -
  have "(2::real) ^ 970 < 2 ^ 1024" by (rule power_strict_increasing) simp_all
  then show ?thesis by (simp add: overflow_bound_def)
qed

lemma fl_in_range: "\<bar>r\<bar> < overflow_bound \<Longrightarrow> fl r = Fin (rnd r)"
  by (auto simp add: fl_def)

lemma diff_in_range:
  "0 \<le> p \<Longrightarrow> p < overflow_bound \<Longrightarrow> 0 \<le> q \<Longrightarrow> q < overflow_bound \<Longrightarrow>
   \<bar>q - p\<bar> < overflow_bound"
  by linarith

lemma half_in_range: "\<bar>x\<bar> < overflow_bound \<Longrightarrow> \<bar>x / 2\<bar> < overflow_bound"
  by linarith

lemma rounded_square_in_range:
  assumes "r ^ 2 < overflow_bound"
  shows "0 \<le> rnd (r ^ 2)" and "rnd (r ^ 2) < overflow_bound"
proof -
  show n: "0 \<le> rnd (r ^ 2)" by (rule rnd_nonneg) simp
  have "\<bar>r ^ 2\<bar> < overflow_bound" using assms by simp
  then have "\<bar>rnd (r ^ 2)\<bar> < overflow_bound" by (rule rnd_in_range)
  then show "rnd (r ^ 2) < overflow_bound" by linarith
qed

text \<open>With both squares in range, every step of \<open>(b**2 - a**2)/2\<close> stays finite.\<close>

lemma integrate_value_finite:
  assumes a: "a ^ 2 < overflow_bound" and b: "b ^ 2 < overflow_bound"
  shows "integrate_value (Fin a) (Fin b)
           = Inr (Fin (rnd (rnd (rnd (b ^ 2) - rnd (a ^ 2)) / 2)))"
proof -
  have d: "\<bar>rnd (b ^ 2) - rnd (a ^ 2)\<bar> < overflow_bound"
    using rounded_square_in_range [OF a] rounded_square_in_range [OF b]
    by (intro diff_in_range)
  have "\<bar>rnd (rnd (b ^ 2) - rnd (a ^ 2))\<bar> < overflow_bound"
    using d by (rule rnd_in_range)
  then have h: "\<bar>rnd (rnd (b ^ 2) - rnd (a ^ 2)) / 2\<bar> < overflow_bound"
    by (rule half_in_range)
  show ?thesis
    using a b by (simp add: integrate_value_def fl_in_range [OF d] fl_in_range [OF h])
qed

text \<open>
  Four roundings, each with relative error \<open>u\<close> and absolute error \<open>n\<close>, leave the
  result within \<open>2 u (A + B) + 4 n\<close> of the exact value.
\<close>

lemma rounding_chain_error:
  fixes A B Ah Bh s v u n :: real
  assumes u0: "0 \<le> u" and u1: "u \<le> 1 / 4" and n0: "0 \<le> n"
    and A: "0 \<le> A" and B: "0 \<le> B"
    and eA: "\<bar>Ah - A\<bar> \<le> u * A + n" and eB: "\<bar>Bh - B\<bar> \<le> u * B + n"
    and es: "\<bar>s - (Bh - Ah)\<bar> \<le> u * \<bar>Bh - Ah\<bar> + n"
    and ev: "\<bar>v - s / 2\<bar> \<le> u * \<bar>s / 2\<bar> + n"
  shows "\<bar>v - (B - A) / 2\<bar> \<le> 2 * (u * (A + B)) + 4 * n"
proof -
  define S where "S = A + B"
  define D where "D = Bh - Ah"
  define US where "US = u * S"
  define aD where "aD = \<bar>D\<bar>"
  define aE where "aE = \<bar>s - D\<bar>"
  define aS where "aS = \<bar>s\<bar>"
  have S0: "0 \<le> S" using A B by (simp add: S_def)
  have US0: "0 \<le> US" using u0 S0 by (simp add: US_def)
  have aE0: "0 \<le> aE" by (simp add: aE_def)
  have US_split: "US = u * A + u * B" by (simp add: US_def S_def algebra_simps)
  have d1: "\<bar>D - (B - A)\<bar> \<le> US + 2 * n"
    using eA eB unfolding D_def US_split by linarith
  have d2: "aD \<le> S + US + 2 * n"
    using d1 A B unfolding S_def aD_def by linarith
  have "u * aD \<le> u * (S + US + 2 * n)" using d2 u0 by (rule mult_left_mono)
  also have "\<dots> = US + u * US + 2 * (u * n)" by (simp add: US_def algebra_simps)
  finally have d3: "u * aD \<le> US + u * US + 2 * (u * n)" .
  have q1: "u * US \<le> (1 / 4) * US" using u1 US0 by (rule mult_right_mono)
  have q2: "u * n \<le> (1 / 4) * n" using u1 n0 by (rule mult_right_mono)
  have d4: "u * aD \<le> (5 / 4) * US + (1 / 2) * n" using d3 q1 q2 by linarith
  have "aE \<le> u * aD + n" using es unfolding aE_def aD_def D_def .
  with d4 have s1: "aE \<le> (5 / 4) * US + (3 / 2) * n" by linarith
  have "aS \<le> aD + aE" unfolding aS_def aD_def aE_def by linarith
  then have "u * aS \<le> u * (aD + aE)" using u0 by (rule mult_left_mono)
  then have s2: "u * aS \<le> u * aD + u * aE" by (simp add: algebra_simps)
  have q3: "u * aE \<le> (1 / 4) * aE" using u1 aE0 by (rule mult_right_mono)
  have s3: "u * aS \<le> (25 / 16) * US + (7 / 8) * n" using s2 d4 q3 s1 by linarith
  define aV where "aV = \<bar>v - s / 2\<bar>"
  define aT where "aT = \<bar>D - (B - A)\<bar>"
  define aR where "aR = \<bar>v - (B - A) / 2\<bar>"
  have "u * \<bar>s / 2\<bar> = (u * aS) / 2" unfolding aS_def by simp
  then have "aV \<le> (u * aS) / 2 + n" using ev unfolding aV_def by (simp only:)
  with s3 have v1: "aV \<le> (25 / 32) * US + (23 / 16) * n" by linarith
  have t1: "aT \<le> US + 2 * n" using d1 by (simp add: aT_def)
  have tri: "\<bar>p + q + r\<bar> \<le> \<bar>p\<bar> + \<bar>q\<bar> + \<bar>r\<bar>" for p q r :: real by linarith
  have "v - (B - A) / 2 = (v - s / 2) + (s - D) / 2 + (D - (B - A)) / 2" by argo
  then have "aR \<le> \<bar>v - s / 2\<bar> + \<bar>(s - D) / 2\<bar> + \<bar>(D - (B - A)) / 2\<bar>"
    using tri [of "v - s / 2" "(s - D) / 2" "(D - (B - A)) / 2"] by (simp add: aR_def)
  then have "aR \<le> aV + aE / 2 + aT / 2"
    by (simp add: aE_def aV_def aT_def)
  with v1 s1 t1 have "aR \<le> (61 / 32) * US + (51 / 16) * n" by linarith
  with US0 n0 have "aR \<le> 2 * US + 4 * n" by linarith
  then show ?thesis by (simp add: US_def S_def aR_def)
qed

lemma rnd_error_scaled: "\<bar>rnd x - x\<bar> \<le> (1 / 2 ^ 53) * \<bar>x\<bar> + 1 / 2 ^ 1075"
  using rnd_error [of x] by simp

lemma integrate_value_error:
  assumes A: "0 \<le> A" and B: "0 \<le> B"
  shows "\<bar>rnd (rnd (rnd B - rnd A) / 2) - (B - A) / 2\<bar> \<le> (A + B) / 2 ^ 52 + 1 / 2 ^ 1073"
proof -
  have u0: "(0::real) \<le> 1 / 2 ^ 53" by simp
  have u1: "(1::real) / 2 ^ 53 \<le> 1 / 4" by simp
  have n0: "(0::real) \<le> 1 / 2 ^ 1075" by simp
  have eA: "\<bar>rnd A - A\<bar> \<le> (1 / 2 ^ 53) * A + 1 / 2 ^ 1075"
    using rnd_error_scaled [of A] A by simp
  have eB: "\<bar>rnd B - B\<bar> \<le> (1 / 2 ^ 53) * B + 1 / 2 ^ 1075"
    using rnd_error_scaled [of B] B by simp
  have es: "\<bar>rnd (rnd B - rnd A) - (rnd B - rnd A)\<bar>
              \<le> (1 / 2 ^ 53) * \<bar>rnd B - rnd A\<bar> + 1 / 2 ^ 1075"
    by (rule rnd_error_scaled)
  have ev: "\<bar>rnd (rnd (rnd B - rnd A) / 2) - rnd (rnd B - rnd A) / 2\<bar>
              \<le> (1 / 2 ^ 53) * \<bar>rnd (rnd B - rnd A) / 2\<bar> + 1 / 2 ^ 1075"
    by (rule rnd_error_scaled)
  have "\<bar>rnd (rnd (rnd B - rnd A) / 2) - (B - A) / 2\<bar>
          \<le> 2 * ((1 / 2 ^ 53) * (A + B)) + 4 * (1 / 2 ^ 1075)"
    by (rule rounding_chain_error [OF u0 u1 n0 A B eA eB es ev])
  also have "\<dots> = (A + B) / 2 ^ 52 + 1 / 2 ^ 1073" by simp
  finally show ?thesis .
qed

lemma fl_neg: "fl (- r) = float_neg (fl r)"
  using overflow_bound_pos by (auto simp add: fl_def rnd_minus)

lemma float_sub_swap:
  "float_sub x y \<noteq> NaN \<Longrightarrow> float_sub y x = float_neg (float_sub x y)"
proof (cases x; cases y)
  fix p q assume "x = Fin p" "y = Fin q"
  then show ?thesis using fl_neg [of "p - q"] by simp
qed simp_all

lemma float_div_neg:
  "float_div x 2 = Inr v \<Longrightarrow> v \<noteq> NaN \<Longrightarrow>
   x \<noteq> NaN \<and> float_div (float_neg x) 2 = Inr (float_neg v)"
proof (cases x)
  case (Fin p)
  assume "float_div x 2 = Inr v"
  with Fin show ?thesis using fl_neg [of "p / 2"] by auto
qed auto

lemma integrate_3_1: "integrate_value (Fin 3) (Fin 1) = Inr (Fin (- 4))"
  using integrate_value_finite [of 3 1]
  by (simp add: overflow_bound_def rnd_small_numerals rnd_minus)

section \<open>Audit logging of the calculation endpoints\<close>

text \<open>
  Claim C1, as amended. For each of the six calculation endpoints: when authentication
  fails, the request ends with that error and the world is unchanged (no computation, no
  log entry). When authentication succeeds, the computation completes and the store
  accepts the commit, the handler answers with the computed value under its key, and the
  log table has gained exactly one row, whose operation is the endpoint's operation name
  and whose result is the string rendering of the returned value; the row is written
  from the computed value and the response is built only after the logger returns. When
  the computation completes and the commit fails, no row is added and no response is
  returned. Conversely every response comes with exactly one new row.
\<close>

theorem audit_entry_per_completed_request:
  "(\<forall>e. get_current_user now auth = Inl e \<longrightarrow> app now auth req w = (Inl e, w))
   \<and> (\<forall>u v. get_current_user now auth = Inr u \<and> compute req = Inr v \<and> db_up w \<longrightarrow>
         app now auth req w = (Inr [(response_key req, v)], logged now (operation_name req) v w)
         \<and> logs (logged now (operation_name req) v w)
             = logs w @ [\<lparr>entry_id = next_id w, operation = Lit (operation_name req),
                           result = Str v, timestamp = now\<rparr>])
   \<and> (\<forall>u v. get_current_user now auth = Inr u \<and> compute req = Inr v \<and> \<not> db_up w \<longrightarrow>
         app now auth req w = (Inl SQLAlchemyError, w))
   \<and> (\<forall>resp w'. app now auth req w = (Inr resp, w') \<longrightarrow>
         (\<exists>v. compute req = Inr v \<and> resp = [(response_key req, v)]
              \<and> logs w' = logs w @ [\<lparr>entry_id = next_id w, operation = Lit (operation_name req),
                           result = Str v, timestamp = now\<rparr>]))"
proof (intro conjI allI impI)
  fix e assume "get_current_user now auth = Inl e"
  then show "app now auth req w = (Inl e, w)" by (rule app_auth_failed)
next
  fix u v assume h: "get_current_user now auth = Inr u \<and> compute req = Inr v \<and> db_up w"
  then show "app now auth req w
      = (Inr [(response_key req, v)], logged now (operation_name req) v w)"
    by (simp add: app_logged)
  show "logs (logged now (operation_name req) v w)
             = logs w @ [\<lparr>entry_id = next_id w, operation = Lit (operation_name req),
                           result = Str v, timestamp = now\<rparr>]"
    by (simp add: logged_def)
next
  fix u v assume "get_current_user now auth = Inr u \<and> compute req = Inr v \<and> \<not> db_up w"
  then show "app now auth req w = (Inl SQLAlchemyError, w)"
    by (simp add: app_store_down)
next
  fix resp w' assume r: "app now auth req w = (Inr resp, w')"
  show "\<exists>v. compute req = Inr v \<and> resp = [(response_key req, v)]
              \<and> logs w' = logs w @ [\<lparr>entry_id = next_id w, operation = Lit (operation_name req),
                           result = Str v, timestamp = now\<rparr>]"
  proof (cases "get_current_user now auth")
    case (Inl e)
    with r show ?thesis by (simp add: app_auth_failed)
  next
    case (Inr u)
    show ?thesis
    proof (cases "compute req")
      case (Inl e)
      with Inr r show ?thesis by (simp add: app_compute_failed)
    next
      case cv: (Inr v)
      show ?thesis
      proof (cases "db_up w")
        case True
        with Inr cv r show ?thesis by (auto simp add: app_logged logged_def)
      next
        case False
        with Inr cv r show ?thesis by (simp add: app_store_down)
      qed
    qed
  qed
qed

text \<open>
  The statement at work: a request without a token is refused and changes nothing; an
  authenticated request for the square root of 4 is answered and logs one row.
\<close>

theorem audit_entry_per_completed_request_witness:
  "app 0 None (GET_sqrt (Fin 4)) fresh_world
     = (Inl (HTTPException 401 ''Not authenticated''), fresh_world)
   \<and> app 0 (Some (signed [''sub'' \<mapsto> JStr ''testuser'', ''exp'' \<mapsto> JInt 1800]))
        (GET_sqrt (Fin 4)) fresh_world
     = (Inr [(''sqrt'', PFloat (Fin 2))], logged 0 ''SQRT'' (PFloat (Fin 2)) fresh_world)
   \<and> logs (logged 0 ''SQRT'' (PFloat (Fin 2)) fresh_world)
     = [\<lparr>entry_id = 1, operation = Lit ''SQRT'', result = Str (PFloat (Fin 2)), timestamp = 0\<rparr>]"
proof -
  have n: "get_current_user 0 None = Inl (HTTPException 401 ''Not authenticated'')"
    by (simp add: get_current_user_def oauth2_scheme_def)
  have t: "get_current_user 0 (Some (signed [''sub'' \<mapsto> JStr ''testuser'', ''exp'' \<mapsto> JInt 1800]))
     = Inr (Some \<lparr>username = ''testuser''\<rparr>)" by (simp add: testuser_token)
  have c: "compute (GET_sqrt (Fin 4)) = Inr (PFloat (Fin 2))"
    using real_sqrt_abs [of 2] by simp
  have u: "db_up fresh_world" "logs fresh_world = []" "next_id fresh_world = 1"
    by (simp_all add: fresh_world_def)
  have p: "get_current_user 0 (Some (signed [''sub'' \<mapsto> JStr ''testuser'', ''exp'' \<mapsto> JInt 1800]))
             = Inr (Some \<lparr>username = ''testuser''\<rparr>)
           \<and> compute (GET_sqrt (Fin 4)) = Inr (PFloat (Fin 2)) \<and> db_up fresh_world"
    using t c u by simp
  note a = audit_entry_per_completed_request
    [of 0 None "GET_sqrt (Fin 4)" fresh_world, THEN conjunct1, rule_format, OF n]
  note b = audit_entry_per_completed_request
    [of 0 "Some (signed [''sub'' \<mapsto> JStr ''testuser'', ''exp'' \<mapsto> JInt 1800])"
        "GET_sqrt (Fin 4)" fresh_world, THEN conjunct2, THEN conjunct1, rule_format, OF p]
  show ?thesis
    using a b u by (simp del: app.simps)
qed

text \<open>
  The claim as first stated asks for a new row whenever the computation completes. With
  the store unavailable, an authenticated request for the square root of 4 completes its
  computation, and the log table stays empty.
\<close>

theorem audit_entry_counterexample:
  "get_current_user 0 (Some (signed [''sub'' \<mapsto> JStr ''testuser'', ''exp'' \<mapsto> JInt 1800]))
     = Inr (Some \<lparr>username = ''testuser''\<rparr>)
   \<and> compute (GET_sqrt (Fin 4)) = Inr (PFloat (Fin 2))
   \<and> app 0 (Some (signed [''sub'' \<mapsto> JStr ''testuser'', ''exp'' \<mapsto> JInt 1800]))
        (GET_sqrt (Fin 4)) store_down = (Inl SQLAlchemyError, store_down)
   \<and> logs store_down = []"
proof -
  have c: "compute (GET_sqrt (Fin 4)) = Inr (PFloat (Fin 2))"
    using real_sqrt_abs [of 2] by simp
  have d: "\<not> db_up store_down" by (simp add: store_down_def)
  show ?thesis
    using c app_store_down [OF testuser_token c d, of 0 1800]
    by (simp add: testuser_token store_down_def)
qed

section \<open>Square root\<close>

text \<open>
  Claim C2, as amended. For an authenticated request to \<open>/sqrt\<close>: a negative argument
  (finite or \<open>-inf\<close>) makes the math call raise \<open>ValueError\<close>, which no handler
  catches, so the request ends with the framework's status 500, a server error and not
  a client error, with no result and no log entry. For a finite argument \<open>r \<ge> 0\<close>
  and a store that accepts the commit, the answer is \<open>{sqrt: v}\<close> with \<open>v \<ge> 0\<close>
  and \<open>v * v = r\<close> (exactly: the math functions are taken as their exact values).
\<close>

theorem sqrt_endpoint:
  assumes "get_current_user now auth = Inr u"
  shows "(r < 0 \<longrightarrow>
            calc_sqrt now auth (Fin r) w = (Inl (ValueError ''math domain error''), w))
       \<and> calc_sqrt now auth NInf w = (Inl (ValueError ''math domain error''), w)
       \<and> status_code (ValueError ''math domain error'') = 500
       \<and> server_error 500 \<and> \<not> client_error 500
       \<and> (0 \<le> r \<and> db_up w \<longrightarrow>
            calc_sqrt now auth (Fin r) w
              = (Inr [(''sqrt'', PFloat (Fin (sqrt r)))], logged now ''SQRT'' (PFloat (Fin (sqrt r))) w)
            \<and> 0 \<le> sqrt r \<and> sqrt r * sqrt r = r)"
  using assms
  by (simp add: calc_sqrt_def log_operation_up server_error_def client_error_def)

text \<open>The statement at the arguments \<open>-1\<close> and \<open>4\<close>.\<close>

theorem sqrt_endpoint_witness:
  "calc_sqrt 0 (Some (signed [''sub'' \<mapsto> JStr ''testuser'', ''exp'' \<mapsto> JInt 1800])) (Fin (- 1)) fresh_world
     = (Inl (ValueError ''math domain error''), fresh_world)
   \<and> calc_sqrt 0 (Some (signed [''sub'' \<mapsto> JStr ''testuser'', ''exp'' \<mapsto> JInt 1800])) (Fin 4) fresh_world
     = (Inr [(''sqrt'', PFloat (Fin 2))], logged 0 ''SQRT'' (PFloat (Fin 2)) fresh_world)"
proof -
  have t: "get_current_user 0 (Some (signed [''sub'' \<mapsto> JStr ''testuser'', ''exp'' \<mapsto> JInt 1800]))
     = Inr (Some \<lparr>username = ''testuser''\<rparr>)" by (simp add: testuser_token)
  have s: "sqrt 4 = 2" using real_sqrt_abs [of 2] by simp
  have u: "db_up fresh_world" by (simp add: fresh_world_def)
  show ?thesis
    using sqrt_endpoint [OF t, of "- 1" fresh_world] sqrt_endpoint [OF t, of 4 fresh_world] s u
    by simp
qed

text \<open>
  The claim as first stated asks for a client error at a negative argument and for a
  result at every non-negative one. At \<open>-1\<close> the status is 500; at \<open>4\<close> with the
  store unavailable there is no result.
\<close>

theorem sqrt_endpoint_counterexample:
  "calc_sqrt 0 (Some (signed [''sub'' \<mapsto> JStr ''testuser'', ''exp'' \<mapsto> JInt 1800])) (Fin (- 1)) fresh_world
     = (Inl (ValueError ''math domain error''), fresh_world)
   \<and> status_code (ValueError ''math domain error'') = 500
   \<and> \<not> client_error 500
   \<and> calc_sqrt 0 (Some (signed [''sub'' \<mapsto> JStr ''testuser'', ''exp'' \<mapsto> JInt 1800])) (Fin 4) store_down
     = (Inl SQLAlchemyError, store_down)"
  by (simp add: calc_sqrt_def testuser_token client_error_def log_operation_down store_down_def)

section \<open>Token expiry\<close>

text \<open>
  Claim C3 says a token minted by \<open>POST /token\<close> expires 30 minutes after it is
  issued. The handler calls \<open>create_access_token\<close> without a validity window, so
  the default of 15 minutes applies and the configured 30 minutes are never used: the
  token of the provisioned user, issued at time \<open>now\<close>, carries the expiry
  \<open>now + 900\<close> seconds, which is not \<open>now\<close> plus the configured window.
\<close>

theorem login_token_expires_after_15_minutes:
  "login now ''testuser'' ''testpass''
     = Inr \<lparr>access_token = JWS ALGORITHM SECRET_KEY
                [''sub'' \<mapsto> JStr ''testuser'', ''exp'' \<mapsto> JInt (now + 900)],
            token_type = ''bearer''\<rparr>
   \<and> now + 900 \<noteq> now + timedelta_minutes ACCESS_TOKEN_EXPIRE_MINUTES"
  by (simp add: login_def authenticate_user_def fake_users_db_def verify_password_def
        pwd_hash_def create_access_token_def jwt_encode_def timedelta_minutes_def
        ACCESS_TOKEN_EXPIRE_MINUTES_def)

section \<open>Cube root\<close>

text \<open>
  Claim C4 says \<open>/cbrt\<close> returns the real cube root for every real argument,
  negative ones included. At the argument \<open>-1\<close> the power \<open>x ** (1/3)\<close> is the
  complex number \<open>1/2 + (sqrt 3 / 2) i\<close>, which the handler logs and returns: not a
  real value, and not \<open>-1\<close>.
\<close>

theorem cbrt_of_minus_one_is_complex:
  "calc_cbrt 0 (Some (signed [''sub'' \<mapsto> JStr ''testuser'', ''exp'' \<mapsto> JInt 1800]))
      (Fin (- 1)) fresh_world
     = (Inr [(''cbrt'', PComplex (Complex (1 / 2) (sqrt 3 / 2)))],
        logged 0 ''CBRT'' (PComplex (Complex (1 / 2) (sqrt 3 / 2))) fresh_world)
   \<and> Im (Complex (1 / 2) (sqrt 3 / 2)) \<noteq> 0"
proof -
  have u: "db_up fresh_world" by (simp add: fresh_world_def)
  show ?thesis
    by (simp add: calc_cbrt_def testuser_token log_operation_up [OF u] cos_60 sin_60)
qed

section \<open>The authentication gate\<close>

lemma first_error_None: "first_error xs = None \<Longrightarrow> x \<in> set xs \<Longrightarrow> x = None"
  by (induction xs rule: first_error.induct) auto

lemma decoded_subject:
  "jwt_decode tok key algs now = Inr payload \<Longrightarrow>
   payload ''sub'' = None \<or> (\<exists>s. payload ''sub'' = Some (JStr s))"
proof (cases tok)
  case (Opaque s)
  assume "jwt_decode tok key algs now = Inr payload"
  with Opaque show ?thesis by simp
next
  case (JWS alg k cl)
  assume "jwt_decode tok key algs now = Inr payload"
  with JWS have p: "payload = cl" and v: "validate_claims cl now = None"
    by (auto split: if_splits option.splits)
  have "validate_sub cl = None"
    using v unfolding validate_claims_def by (rule first_error_None) simp
  then show ?thesis
    unfolding p validate_sub_def
    by (cases "cl ''sub''") (auto split: if_splits elim: is_jstr.elims)
qed

text \<open>
  Claim C5, as amended. For a bearer token that the decoder accepts (its signature
  verifies under the configured key and algorithm, its expiry has not passed, and the
  claims it carries pass the decoder's checks, so that its subject, if present, is a
  string): if the subject claim is absent, the gate fails with the 401 authentication
  error, and so does every calculation request; if the subject is present and names no
  user of the credential store, the gate does not fail, it returns no identity, and the
  calculation handler still runs: it computes, logs and answers. After decoding no other
  case remains: the subject is absent or a string.
\<close>

theorem unresolved_subject_passes_auth_gate:
  assumes "jwt_decode tok SECRET_KEY [ALGORITHM] now = Inr payload"
  shows "(payload ''sub'' = None \<longrightarrow>
            get_current_user now (Some tok)
              = Inl (HTTPException 401 ''Could not validate credentials'')
            \<and> (\<forall>req (w::world). app now (Some tok) req w
                  = (Inl (HTTPException 401 ''Could not validate credentials''), w)))
       \<and> (\<forall>s. payload ''sub'' = Some (JStr s) \<and> s \<notin> dom fake_users_db \<longrightarrow>
            get_current_user now (Some tok) = Inr None
            \<and> (\<forall>req (w::world) v. compute req = Inr v \<and> db_up w \<longrightarrow>
                  app now (Some tok) req w
                    = (Inr [(response_key req, v)], logged now (operation_name req) v w)))
       \<and> (payload ''sub'' = None \<or> (\<exists>s. payload ''sub'' = Some (JStr s)))"
proof (intro conjI allI impI)
  assume "payload ''sub'' = None"
  with assms show g: "get_current_user now (Some tok)
              = Inl (HTTPException 401 ''Could not validate credentials'')"
    by (simp add: get_current_user_def oauth2_scheme_def credentials_exception_def)
  fix req and w :: world
  show "app now (Some tok) req w
                  = (Inl (HTTPException 401 ''Could not validate credentials''), w)"
    using g by (rule app_auth_failed)
next
  fix s assume h: "payload ''sub'' = Some (JStr s) \<and> s \<notin> dom fake_users_db"
  with assms show g: "get_current_user now (Some tok) = Inr None"
    by (simp add: get_current_user_def oauth2_scheme_def get_user_def)
  fix req and w :: world and v assume "compute req = Inr v \<and> db_up w"
  then show "app now (Some tok) req w
                    = (Inr [(response_key req, v)], logged now (operation_name req) v w)"
    using g by (simp add: app_logged)
next
  show "payload ''sub'' = None \<or> (\<exists>s. payload ''sub'' = Some (JStr s))"
    using assms by (rule decoded_subject)
qed

text \<open>
  The statement at a signed token without subject and at one whose subject is the
  unknown name \<open>ghost\<close>.
\<close>

theorem unresolved_subject_passes_auth_gate_witness:
  "get_current_user 0 (Some (signed [''exp'' \<mapsto> JInt 1800]))
     = Inl (HTTPException 401 ''Could not validate credentials'')
   \<and> get_current_user 0 (Some (signed [''sub'' \<mapsto> JStr ''ghost'', ''exp'' \<mapsto> JInt 1800]))
     = Inr None
   \<and> app 0 (Some (signed [''sub'' \<mapsto> JStr ''ghost'', ''exp'' \<mapsto> JInt 1800]))
        (GET_sqrt (Fin 4)) fresh_world
     = (Inr [(''sqrt'', PFloat (Fin 2))], logged 0 ''SQRT'' (PFloat (Fin 2)) fresh_world)"
proof -
  have d1: "jwt_decode (signed [''exp'' \<mapsto> JInt 1800]) SECRET_KEY [ALGORITHM] 0
              = Inr [''exp'' \<mapsto> JInt 1800]"
    by (simp add: signed_def SECRET_KEY_def ALGORITHM_def decode_defs)
  have d2: "jwt_decode (signed [''sub'' \<mapsto> JStr ''ghost'', ''exp'' \<mapsto> JInt 1800])
              SECRET_KEY [ALGORITHM] 0
              = Inr [''sub'' \<mapsto> JStr ''ghost'', ''exp'' \<mapsto> JInt 1800]"
    by (simp add: signed_def SECRET_KEY_def ALGORITHM_def decode_defs)
  have g: "''ghost'' \<notin> dom fake_users_db" by (simp add: fake_users_db_def)
  have c: "compute (GET_sqrt (Fin 4)) = Inr (PFloat (Fin 2))"
    using real_sqrt_abs [of 2] by simp
  have u: "db_up fresh_world" by (simp add: fresh_world_def)
  show ?thesis
    using unresolved_subject_passes_auth_gate [OF d1] unresolved_subject_passes_auth_gate [OF d2]
      g c u
    by (simp del: app.simps)
qed

text \<open>
  The claim as first stated covers every token whose signature verifies and whose expiry
  has not passed. A token signed with the service key, not expired, whose subject is the
  number 7 has a subject that resolves to no user, and the gate fails with 401.
\<close>

theorem unresolved_subject_counterexample:
  "get_current_user 0 (Some (signed [''sub'' \<mapsto> JInt 7, ''exp'' \<mapsto> JInt 1800]))
     = Inl (HTTPException 401 ''Could not validate credentials'')"
  by (simp add: get_current_user_def oauth2_scheme_def signed_def SECRET_KEY_def
        ALGORITHM_def decode_defs credentials_exception_def)

section \<open>Logarithm\<close>

text \<open>
  Claim C6, as amended. For an authenticated request to \<open>/log\<close>: an argument
  \<open>r \<le> 0\<close> (or \<open>-inf\<close>) makes the math call raise \<open>ValueError\<close>, which no
  handler catches, so the request ends with the framework's status 500, a server error
  and not a client error, with no result and no log entry. For a finite argument
  \<open>r > 0\<close> and a store that accepts the commit, the answer is \<open>{log10: v}\<close> with
  \<open>10\<close> to the power \<open>v\<close> equal to \<open>r\<close> (exactly: the math functions are taken as
  their exact values).
\<close>

theorem log_endpoint:
  assumes "get_current_user now auth = Inr u"
  shows "(r \<le> 0 \<longrightarrow>
            calc_log now auth (Fin r) w = (Inl (ValueError ''math domain error''), w))
       \<and> calc_log now auth NInf w = (Inl (ValueError ''math domain error''), w)
       \<and> status_code (ValueError ''math domain error'') = 500
       \<and> server_error 500 \<and> \<not> client_error 500
       \<and> (0 < r \<and> db_up w \<longrightarrow>
            calc_log now auth (Fin r) w
              = (Inr [(''log10'', PFloat (Fin (log 10 r)))],
                 logged now ''LOG'' (PFloat (Fin (log 10 r))) w)
            \<and> 10 powr (log 10 r) = r)"
  using assms
  by (simp add: calc_log_def log_operation_up server_error_def client_error_def)

text \<open>The statement at the arguments \<open>0\<close> and \<open>100\<close>.\<close>

theorem log_endpoint_witness:
  "calc_log 0 (Some (signed [''sub'' \<mapsto> JStr ''testuser'', ''exp'' \<mapsto> JInt 1800])) (Fin 0) fresh_world
     = (Inl (ValueError ''math domain error''), fresh_world)
   \<and> calc_log 0 (Some (signed [''sub'' \<mapsto> JStr ''testuser'', ''exp'' \<mapsto> JInt 1800])) (Fin 100) fresh_world
     = (Inr [(''log10'', PFloat (Fin 2))], logged 0 ''LOG'' (PFloat (Fin 2)) fresh_world)"
proof -
  have t: "get_current_user 0 (Some (signed [''sub'' \<mapsto> JStr ''testuser'', ''exp'' \<mapsto> JInt 1800]))
     = Inr (Some \<lparr>username = ''testuser''\<rparr>)" by (simp add: testuser_token)
  have s: "log 10 100 = (2::real)" using log_pow_cancel [of 10 2] by simp
  have u: "db_up fresh_world" by (simp add: fresh_world_def)
  show ?thesis
    using log_endpoint [OF t, of 0 fresh_world] log_endpoint [OF t, of 100 fresh_world] s u
    by simp
qed

text \<open>
  The claim as first stated asks for a client error at a non-positive argument and for a
  result at every positive one. At \<open>0\<close> the status is 500; at \<open>1\<close> with the store
  unavailable there is no result.
\<close>

theorem log_endpoint_counterexample:
  "calc_log 0 (Some (signed [''sub'' \<mapsto> JStr ''testuser'', ''exp'' \<mapsto> JInt 1800])) (Fin 0) fresh_world
     = (Inl (ValueError ''math domain error''), fresh_world)
   \<and> status_code (ValueError ''math domain error'') = 500
   \<and> \<not> client_error 500
   \<and> calc_log 0 (Some (signed [''sub'' \<mapsto> JStr ''testuser'', ''exp'' \<mapsto> JInt 1800])) (Fin 1) store_down
     = (Inl SQLAlchemyError, store_down)"
  by (simp add: calc_log_def testuser_token client_error_def log_operation_down store_down_def)

section \<open>Integration\<close>

text \<open>
  Claim C7, as amended. For every pair of finite bounds \<open>a\<close>, \<open>b\<close> whose squares
  stay in the range of a double, in either order, an authenticated request to
  \<open>/integrate\<close> with a store that accepts the commit succeeds and answers
  \<open>{integration: v}\<close> with a finite \<open>v\<close> that is \<open>(b^2 - a^2)/2\<close> up to the rounding of
  the two squares, the difference and the quotient: \<open>v\<close> differs from the exact value
  by at most \<open>(a^2 + b^2) / 2^52 + 2^-1073\<close>. The bound is relative to the size of
  the squares, not of the result, which can be much smaller when the squares cancel; it
  leaves room for squares that are off by one unit in the last place.
\<close>

theorem integrate_endpoint:
  assumes "get_current_user now auth = Inr u" and "db_up w"
    and "a ^ 2 < overflow_bound" and "b ^ 2 < overflow_bound"
  shows "\<exists>v. calc_integrate now auth (Fin a) (Fin b) w
                = (Inr [(''integration'', PFloat (Fin v))],
                   logged now ''INTEGRATION'' (PFloat (Fin v)) w)
              \<and> \<bar>v - (b ^ 2 - a ^ 2) / 2\<bar> \<le> (a ^ 2 + b ^ 2) / 2 ^ 52 + 1 / 2 ^ 1073"
proof (intro exI conjI)
  show "calc_integrate now auth (Fin a) (Fin b) w
          = (Inr [(''integration'', PFloat (Fin (rnd (rnd (rnd (b ^ 2) - rnd (a ^ 2)) / 2))))],
             logged now ''INTEGRATION''
               (PFloat (Fin (rnd (rnd (rnd (b ^ 2) - rnd (a ^ 2)) / 2)))) w)"
    using assms by (simp add: calc_integrate_def integrate_value_finite log_operation_up)
  show "\<bar>rnd (rnd (rnd (b ^ 2) - rnd (a ^ 2)) / 2) - (b ^ 2 - a ^ 2) / 2\<bar>
          \<le> (a ^ 2 + b ^ 2) / 2 ^ 52 + 1 / 2 ^ 1073"
    by (rule integrate_value_error) simp_all
qed

text \<open>
  The statement at \<open>a = 3\<close>, \<open>b = 1\<close>, a pair with \<open>a > b\<close>: the answer is \<open>-4\<close>, here
  without any rounding error.
\<close>

theorem integrate_endpoint_witness:
  "calc_integrate 0 (Some (signed [''sub'' \<mapsto> JStr ''testuser'', ''exp'' \<mapsto> JInt 1800]))
      (Fin 3) (Fin 1) fresh_world
     = (Inr [(''integration'', PFloat (Fin (- 4)))],
        logged 0 ''INTEGRATION'' (PFloat (Fin (- 4))) fresh_world)
   \<and> \<bar>- 4 - ((1::real) ^ 2 - 3 ^ 2) / 2\<bar> \<le> (3 ^ 2 + 1 ^ 2) / 2 ^ 52 + 1 / 2 ^ 1073"
proof -
  have t: "get_current_user 0 (Some (signed [''sub'' \<mapsto> JStr ''testuser'', ''exp'' \<mapsto> JInt 1800]))
     = Inr (Some \<lparr>username = ''testuser''\<rparr>)" by (simp add: testuser_token)
  have u: "db_up fresh_world" by (simp add: fresh_world_def)
  have a: "(3::real) ^ 2 < overflow_bound" by (simp add: overflow_bound_def)
  have b: "(1::real) ^ 2 < overflow_bound" by (simp add: overflow_bound_def)
  have e: "calc_integrate 0
             (Some (signed [''sub'' \<mapsto> JStr ''testuser'', ''exp'' \<mapsto> JInt 1800]))
             (Fin 3) (Fin 1) fresh_world
           = (Inr [(''integration'', PFloat (Fin (- 4)))],
              logged 0 ''INTEGRATION'' (PFloat (Fin (- 4))) fresh_world)"
    using t u by (simp add: calc_integrate_def integrate_3_1 log_operation_up)
  from integrate_endpoint [OF t u a b] show ?thesis
  proof (elim exE conjE)
    fix v
    assume v: "calc_integrate 0
          (Some (signed [''sub'' \<mapsto> JStr ''testuser'', ''exp'' \<mapsto> JInt 1800]))
          (Fin 3) (Fin 1) fresh_world
        = (Inr [(''integration'', PFloat (Fin v))],
           logged 0 ''INTEGRATION'' (PFloat (Fin v)) fresh_world)"
      and r: "\<bar>v - (1 ^ 2 - 3 ^ 2) / 2\<bar> \<le> (3 ^ 2 + 1 ^ 2) / 2 ^ 52 + 1 / 2 ^ 1073"
    from v [unfolded e]
    have "v = - 4" by simp
    with r have "\<bar>- 4 - ((1::real) ^ 2 - 3 ^ 2) / 2\<bar> \<le> (3 ^ 2 + 1 ^ 2) / 2 ^ 52 + 1 / 2 ^ 1073"
      by (simp only:)
    with e show ?thesis by (intro conjI)
  qed
qed

text \<open>
  The claim as first stated promises success for every pair of reals. At \<open>a = 1e200\<close>,
  \<open>b = 0\<close> the square of \<open>a\<close> overflows and the request ends with
  \<open>OverflowError\<close>.
\<close>

theorem integrate_endpoint_counterexample:
  "calc_integrate 0 (Some (signed [''sub'' \<mapsto> JStr ''testuser'', ''exp'' \<mapsto> JInt 1800]))
      (Fin (10 ^ 200)) (Fin 0) fresh_world
     = (Inl (OverflowError ''Numerical result out of range''), fresh_world)"
  by (simp add: calc_integrate_def integrate_value_def testuser_token overflow_bound_def
        rnd_zero)

text \<open>
  Claim C10, as amended. Whenever the integrate computation returns a value for
  \<open>(a, b)\<close> that is not NaN, it returns the exact negation of that value for
  \<open>(b, a)\<close>; and for every finite \<open>r\<close> whose square stays in the range of a
  double the value for \<open>(r, r)\<close> is \<open>0\<close>.
\<close>

theorem integrate_antisymmetric:
  "(\<forall>v. integrate_value a b = Inr v \<and> v \<noteq> NaN \<longrightarrow> integrate_value b a = Inr (float_neg v))
   \<and> (r ^ 2 < overflow_bound \<longrightarrow> integrate_value (Fin r) (Fin r) = Inr (Fin 0))"
proof (intro conjI allI impI)
  fix v assume h: "integrate_value a b = Inr v \<and> v \<noteq> NaN"
  then obtain a2 b2 where a2: "float_pow2 a = Inr a2" and b2: "float_pow2 b = Inr b2"
    and d: "float_div (float_sub b2 a2) 2 = Inr v"
    by (auto simp add: integrate_value_def split: sum.splits simp del: float_div.simps)
  from float_div_neg [OF d] h
  have n: "float_sub b2 a2 \<noteq> NaN"
    and e: "float_div (float_neg (float_sub b2 a2)) 2 = Inr (float_neg v)" by simp_all
  from float_sub_swap [OF n] e
  have "float_div (float_sub a2 b2) 2 = Inr (float_neg v)" by simp
  then show "integrate_value b a = Inr (float_neg v)"
    using a2 b2 by (simp add: integrate_value_def del: float_div.simps)
next
  assume "r ^ 2 < overflow_bound"
  then show "integrate_value (Fin r) (Fin r) = Inr (Fin 0)"
    using integrate_value_finite [of r r] by (simp add: rnd_zero)
qed

text \<open>The statement at the bounds \<open>3\<close> and \<open>1\<close>.\<close>

theorem integrate_antisymmetric_witness:
  "integrate_value (Fin 3) (Fin 1) = Inr (Fin (- 4))
   \<and> integrate_value (Fin 1) (Fin 3) = Inr (Fin 4)
   \<and> integrate_value (Fin 3) (Fin 3) = Inr (Fin 0)"
proof -
  have v: "integrate_value (Fin 3) (Fin 1) = Inr (Fin (- 4))"
    by (rule integrate_3_1)
  have p: "integrate_value (Fin 3) (Fin 1) = Inr (Fin (- 4)) \<and> Fin (- 4) \<noteq> NaN"
    using v by simp
  have q: "(3::real) ^ 2 < overflow_bound" by (simp add: overflow_bound_def)
  note a = integrate_antisymmetric [of "Fin 3" "Fin 1" 3, THEN conjunct1, rule_format, OF p]
  note b = integrate_antisymmetric [of "Fin 3" "Fin 1" 3, THEN conjunct2, rule_format, OF q]
  show ?thesis using v a b by simp
qed

text \<open>
  The claim as first stated covers every pair of floats. With both bounds \<open>inf\<close> the
  value is NaN, not \<open>0\<close>.
\<close>

theorem integrate_antisymmetric_counterexample:
  "integrate_value PInf PInf = Inr NaN \<and> NaN \<noteq> Fin 0"
  by (simp add: integrate_value_def)

section \<open>Persistence failures\<close>

text \<open>
  Claim C8. When the audit write of a calculation request fails (the request is
  authenticated, its computation completes, and the store refuses the commit), the
  failure leaves the logger and the handler as an exception: the request ends with it,
  answered with status 500, a server error, and no result is returned.
\<close>

theorem persistence_failure_propagates:
  assumes "get_current_user now auth = Inr u" and "compute req = Inr v" and "\<not> db_up w"
  shows "log_operation now (Lit (operation_name req)) (Str v) w = (Inl SQLAlchemyError, w)
       \<and> app now auth req w = (Inl SQLAlchemyError, w)
       \<and> status_code SQLAlchemyError = 500
       \<and> server_error (status_code SQLAlchemyError)"
  using assms by (simp add: log_operation_down app_store_down server_error_def)

text \<open>The statement at a request for the square root of 4 with the store unavailable.\<close>

theorem persistence_failure_propagates_witness:
  "log_operation 0 (Lit ''SQRT'') (Str (PFloat (Fin 2))) store_down
     = (Inl SQLAlchemyError, store_down)
   \<and> app 0 (Some (signed [''sub'' \<mapsto> JStr ''testuser'', ''exp'' \<mapsto> JInt 1800]))
        (GET_sqrt (Fin 4)) store_down = (Inl SQLAlchemyError, store_down)
   \<and> server_error (status_code SQLAlchemyError)"
proof -
  have t: "get_current_user 0 (Some (signed [''sub'' \<mapsto> JStr ''testuser'', ''exp'' \<mapsto> JInt 1800]))
     = Inr (Some \<lparr>username = ''testuser''\<rparr>)" by (simp add: testuser_token)
  have c: "compute (GET_sqrt (Fin 4)) = Inr (PFloat (Fin 2))"
    using real_sqrt_abs [of 2] by simp
  have d: "\<not> db_up store_down" by (simp add: store_down_def)
  show ?thesis
    using persistence_failure_propagates [OF t c d] by simp
qed

section \<open>Login failures\<close>

lemma take_72_testpass: "take 72 p = ''testpass'' \<longleftrightarrow> p = ''testpass''"
proof
  assume h: "take 72 p = ''testpass''"
  then have "length (take 72 p) = 8" by simp
  then have "length p = 8" by (simp add: min_def split: if_splits)
  then have "take 72 p = p" by simp
  with h show "p = ''testpass''" by simp
qed simp

lemma provisioned_user:
  "fake_users_db u = Some row \<Longrightarrow>
   u = ''testuser'' \<and> hashed_password row = pwd_hash ''testpass''"
  by (auto simp add: fake_users_db_def split: if_splits)

text \<open>
  Claim C9, as amended. For requests to \<open>POST /token\<close> whose form carries a non-empty
  username and a non-empty password: a login with an unknown username, and a login with
  a known username and a wrong password that the hash verification takes as input (no
  NUL byte, at most 4096 bytes), both fail with the same error, status 400 with the same
  message; no token is issued, and the two outcomes are equal.
\<close>

theorem login_failures_indistinguishable:
  assumes "u1 \<noteq> []" and "p1 \<noteq> []" and "fake_users_db u1 = None"
    and "p2 \<noteq> []" and "fake_users_db u2 = Some row"
    and "hashed_password row \<noteq> pwd_hash p2"
    and "CHR 0x00 \<notin> set p2" and "length p2 \<le> 4096"
  shows "post_token t1 u1 p1 = Inl (HTTPException 400 ''Incorrect username or password'')
       \<and> post_token t2 u2 p2 = Inl (HTTPException 400 ''Incorrect username or password'')
       \<and> post_token t1 u1 p1 = post_token t2 u2 p2
       \<and> client_error (status_code (HTTPException 400 ''Incorrect username or password''))"
proof -
  have one: "post_token t1 u1 p1 = Inl (HTTPException 400 ''Incorrect username or password'')"
    using assms(1-3)
    by (simp add: post_token_def OAuth2PasswordRequestForm_def login_def authenticate_user_def)
  from provisioned_user [OF assms(5)]
  have u2: "u2 = ''testuser''" and h: "hashed_password row = pwd_hash ''testpass''" by simp_all
  have w: "p2 \<noteq> ''testpass''" using assms(6) h by auto
  have "verify_password p2 (hashed_password row) = Inr False"
    using assms(7,8) w unfolding h
    by (simp add: verify_password_def pwd_hash_def take_72_testpass [simplified])
  then have two: "post_token t2 u2 p2 = Inl (HTTPException 400 ''Incorrect username or password'')"
    using assms(4,5) u2
    by (simp add: post_token_def OAuth2PasswordRequestForm_def login_def authenticate_user_def)
  show ?thesis using one two by (simp add: client_error_def)
qed

text \<open>The statement at an unknown user and at the provisioned user with a wrong password.\<close>

theorem login_failures_indistinguishable_witness:
  "post_token 0 ''nobody'' ''testpass''
     = Inl (HTTPException 400 ''Incorrect username or password'')
   \<and> post_token 7 ''testuser'' ''wrong''
     = Inl (HTTPException 400 ''Incorrect username or password'')
   \<and> post_token 0 ''nobody'' ''testpass'' = post_token 7 ''testuser'' ''wrong''"
proof -
  have a: "fake_users_db ''nobody'' = None" by (simp add: fake_users_db_def)
  have b: "fake_users_db ''testuser''
             = Some \<lparr>row_username = ''testuser'', hashed_password = pwd_hash ''testpass''\<rparr>"
    by (simp add: fake_users_db_def)
  have c: "hashed_password \<lparr>row_username = ''testuser'', hashed_password = pwd_hash ''testpass''\<rparr>
             \<noteq> pwd_hash ''wrong''"
    by (simp add: pwd_hash_def)
  have n: "''nobody'' \<noteq> []" "''testpass'' \<noteq> []" "''wrong'' \<noteq> []" by simp_all
  have z: "CHR 0x00 \<notin> set ''wrong''" "length ''wrong'' \<le> 4096" by simp_all
  show ?thesis
    using login_failures_indistinguishable [OF n(1) n(2) a n(3) b c z, of 0 7] by simp
qed

text \<open>
  The claim as first stated covers every request. A password that ends in a NUL byte,
  sent for the provisioned user, makes the hash verification raise: the request ends
  with status 500, while the same password sent for an unknown user is answered with
  400. And a request with an unknown username and an empty password is refused with 422
  before the handler runs.
\<close>

theorem login_failures_counterexample:
  "post_token 0 ''testuser'' (''testpass'' @ [CHR 0x00])
     = Inl (ValueError ''password may not contain NULL bytes'')
   \<and> status_code (ValueError ''password may not contain NULL bytes'') = 500
   \<and> post_token 0 ''nobody'' (''testpass'' @ [CHR 0x00])
     = Inl (HTTPException 400 ''Incorrect username or password'')
   \<and> post_token 0 ''nobody'' [] = Inl (RequestValidationError ''Field required'')
   \<and> status_code (RequestValidationError ''Field required'') = 422"
  by (simp add: post_token_def OAuth2PasswordRequestForm_def login_def authenticate_user_def
        fake_users_db_def verify_password_def pwd_hash_def)



end
